theory Spec2Isabelle
  imports Main "HOL-Library.AList"
begin

section \<open>The call coordinator of store.tsx\<close>

text \<open>
  The model follows \<^verbatim>\<open>AppProvider\<close> in \<^verbatim>\<open>store.tsx\<close>. React state variables, the
  \<^verbatim>\<open>useRef\<close> cells and the browser objects they point to (media tracks, media streams,
  peer connections) are fields of one record that every operation takes and returns.
  Browser objects live in stores indexed by a handle, because the source shares and mutates
  them: the same track is held by a stream and by the senders of several connections.
  What the outside world decides (whether a capture is granted, whether a WebRTC call
  throws, what the clock shows) is a parameter of the operation, the record \<open>env\<close>.
  What the code does to the outside world (signals published, rows handed to the store,
  errors reported) is appended to lists of the state.

  Every operation is run to its end before the next one starts: the interleaving of
  handlers at their \<^verbatim>\<open>await\<close> points is not part of the model.
\<close>

subsection \<open>Browser objects\<close>

type_synonym user_id = string
type_synonym track_id = nat
type_synonym stream_id = nat
type_synonym pc_id = nat

datatype track_kind = Audio | Video

text \<open>
  A \<^verbatim>\<open>MediaStreamTrack\<close>: \<open>t_live\<close> is \<^verbatim>\<open>readyState === 'live'\<close>, \<open>t_screen\<close> is the
  test \<^verbatim>\<open>label.includes('screen') || getSettings().displaySurface\<close> of the source.
\<close>

record track =
  t_kind :: track_kind
  t_enabled :: bool
  t_live :: bool
  t_screen :: bool

datatype sdp_type = OfferSdp | AnswerSdp

datatype sdp = Sdp sdp_type string

text \<open>
  An \<^verbatim>\<open>RTCPeerConnection\<close>: its senders (each holding a track or null), whether it was
  closed, and the descriptions set on it.
\<close>

record pconn =
  pc_senders :: "track_id option list"
  pc_closed :: bool
  pc_remote :: "sdp option"
  pc_local :: "sdp option"

subsection \<open>Signals, rows and reports\<close>

datatype signal_type =
  OFFER | ANSWER | CANDIDATE | HANGUP | CHAT_MSG | CHAT_MESSAGE | USER_ONLINE
  | SCREEN_STARTED | SCREEN_STOPPED

text \<open>
  The payload is an untyped object in the source; the handler reads the fields below.
  A field that is missing reads as \<^verbatim>\<open>undefined\<close>: \<open>None\<close>, or \<open>False\<close> for the flag.
  Of a chat message only the id and the text are kept.
\<close>

record payload =
  p_sdp :: "sdp option"
  p_candidate :: "string option"
  p_hasCameraFallback :: bool
  p_chat_id :: "string option"
  p_chat_text :: string

definition empty_payload :: payload where
  "empty_payload =
     \<lparr>p_sdp = None, p_candidate = None, p_hasCameraFallback = False,
      p_chat_id = None, p_chat_text = []\<rparr>"

definition sdp_payload :: "sdp \<Rightarrow> payload" where
  "sdp_payload d = empty_payload\<lparr>p_sdp := Some d\<rparr>"

record signal =
  sig_type :: signal_type
  senderId :: user_id
  recipientId :: "user_id option"
  sig_payload :: payload

record user =
  u_id :: user_id
  u_name :: string

record chat_message =
  cm_id :: string
  cm_text :: string

record incoming_call =
  callerId :: user_id
  ic_timestamp :: nat
  offer :: "sdp option"

text \<open>The row passed to \<^verbatim>\<open>supabase.from('notifications').insert\<close>.\<close>

record notification_row =
  n_id :: string
  n_recipient_id :: user_id
  n_sender_id :: user_id
  n_type :: string
  n_title :: string
  n_message :: string
  n_timestamp :: nat
  n_read :: bool
  n_link_to :: user_id

text \<open>The row passed to \<^verbatim>\<open>supabase.from('messages').insert\<close>.\<close>

record message_row =
  m_id :: string
  m_sender_id :: user_id
  m_recipient_id :: user_id
  m_text :: string
  m_timestamp :: nat
  m_type :: string
  m_attachments :: "string list"

datatype report = ConsoleError string | ConsoleWarn string | Alert string

subsection \<open>The environment of one operation\<close>

text \<open>
  \<open>getUserMedia_ok\<close> answers the capture the operation itself requests,
  \<open>reacquire_ok\<close> the camera capture inside \<^verbatim>\<open>stopScreenSharing\<close>. The WebRTC calls on
  the connection to a peer succeed or throw as the functions from the peer's id say; one
  answer holds for every call of that kind on that connection during the operation.
  \<open>createDescription_ok\<close> stands for \<^verbatim>\<open>createOffer\<close> or \<^verbatim>\<open>createAnswer\<close> followed by
  \<^verbatim>\<open>setLocalDescription\<close>, and \<open>created_sdp\<close> for the description they produce.
  A capture that is granted delivers one track of the kind asked for. Publishing on a
  subscribed channel does not fail.
\<close>

record env =
  now :: nat
  notification_id :: string
  message_id :: string
  chat_id :: string
  getUserMedia_ok :: bool
  reacquire_ok :: bool
  getDisplayMedia_ok :: bool
  setRemoteDescription_ok :: "user_id \<Rightarrow> bool"
  createDescription_ok :: "user_id \<Rightarrow> bool"
  created_sdp :: "user_id \<Rightarrow> string"
  replaceTrack_ok :: "user_id \<Rightarrow> bool"
  addTrack_ok :: "user_id \<Rightarrow> bool"
  setParameters_ok :: "user_id \<Rightarrow> bool"
  addIceCandidate_ok :: bool
  insert_notification_ok :: bool
  insert_message_ok :: bool

subsection \<open>The state of the provider\<close>

record app_state =
  currentUser :: "user_id option"
  users :: "user list"
  messages :: "chat_message list"
  incomingCall :: "incoming_call option"
  isInCall :: bool
  activeCallData :: "user_id list option"
  localStream :: "stream_id option"
  localAudioStream :: "stream_id option"
  localVideoStream :: "stream_id option"
  remoteStreams :: "(user_id \<times> stream_id) list"
  isScreenSharing :: bool
  isMicOn :: bool
  isCameraOn :: bool
  peerConnectionsRef :: "(user_id \<times> pc_id) list"
  signalingChannelRef :: bool
  isSignalingConnectedRef :: bool
  incomingCallRef :: "incoming_call option"
  isInCallRef :: bool
  activeCallDataRef :: "user_id list option"
  localStreamRef :: "stream_id option"
  localAudioStreamRef :: "stream_id option"
  localVideoStreamRef :: "stream_id option"
  prevCameraWasOnRef :: bool
  usersRef :: "user list"
  tracks :: "track_id \<rightharpoonup> track"
  streams :: "stream_id \<rightharpoonup> track_id list"
  conns :: "pc_id \<rightharpoonup> pconn"
  next_obj :: nat
  sent :: "signal list"
  db_notifications :: "notification_row list"
  db_messages :: "message_row list"
  reports :: "report list"

text \<open>
  \<open>activeCallData\<close> holds the \<^verbatim>\<open>participantIds\<close> of the source's object. The two maps
  of the source (\<^verbatim>\<open>peerConnectionsRef.current\<close> and \<^verbatim>\<open>remoteStreams\<close>) are association
  lists in insertion order, the order in which a JavaScript \<^verbatim>\<open>Map\<close> is iterated:
  \<open>AList.update\<close> overwrites a key in place or appends it, as \<^verbatim>\<open>Map.set\<close> does.
\<close>

definition initial_state :: "user_id \<Rightarrow> user list \<Rightarrow> app_state" where
  "initial_state me us =
     \<lparr>currentUser = Some me, users = us, messages = [], incomingCall = None,
      isInCall = False, activeCallData = None, localStream = None,
      localAudioStream = None, localVideoStream = None, remoteStreams = [],
      isScreenSharing = False, isMicOn = False, isCameraOn = False,
      peerConnectionsRef = [], signalingChannelRef = True,
      isSignalingConnectedRef = True, incomingCallRef = None, isInCallRef = False,
      activeCallDataRef = None, localStreamRef = None, localAudioStreamRef = None,
      localVideoStreamRef = None, prevCameraWasOnRef = False, usersRef = us,
      tracks = Map.empty, streams = Map.empty, conns = Map.empty, next_obj = 0,
      sent = [], db_notifications = [], db_messages = [], reports = []\<rparr>"

subsection \<open>Tracks, streams and connections\<close>

definition new_track :: "track \<Rightarrow> app_state \<Rightarrow> track_id \<times> app_state" where
  "new_track trk s =
     (next_obj s, s\<lparr>tracks := (tracks s)(next_obj s \<mapsto> trk), next_obj := Suc (next_obj s)\<rparr>)"

definition new_stream :: "track_id list \<Rightarrow> app_state \<Rightarrow> stream_id \<times> app_state" where
  "new_stream ts s =
     (next_obj s, s\<lparr>streams := (streams s)(next_obj s \<mapsto> ts), next_obj := Suc (next_obj s)\<rparr>)"

definition getTracks :: "app_state \<Rightarrow> stream_id \<Rightarrow> track_id list" where
  "getTracks s sid = (case streams s sid of None \<Rightarrow> [] | Some ts \<Rightarrow> ts)"

definition has_kind :: "app_state \<Rightarrow> track_kind \<Rightarrow> track_id \<Rightarrow> bool" where
  "has_kind s k t = (case tracks s t of None \<Rightarrow> False | Some trk \<Rightarrow> t_kind trk = k)"

definition getAudioTracks :: "app_state \<Rightarrow> stream_id \<Rightarrow> track_id list" where
  "getAudioTracks s sid = filter (has_kind s Audio) (getTracks s sid)"

definition getVideoTracks :: "app_state \<Rightarrow> stream_id \<Rightarrow> track_id list" where
  "getVideoTracks s sid = filter (has_kind s Video) (getTracks s sid)"

definition is_live :: "app_state \<Rightarrow> track_id \<Rightarrow> bool" where
  "is_live s t = (case tracks s t of None \<Rightarrow> False | Some trk \<Rightarrow> t_live trk)"

definition is_enabled :: "app_state \<Rightarrow> track_id \<Rightarrow> bool" where
  "is_enabled s t = (case tracks s t of None \<Rightarrow> False | Some trk \<Rightarrow> t_enabled trk)"

definition is_screen :: "app_state \<Rightarrow> track_id \<Rightarrow> bool" where
  "is_screen s t = (case tracks s t of None \<Rightarrow> False | Some trk \<Rightarrow> t_screen trk)"

definition track_stop :: "track_id \<Rightarrow> app_state \<Rightarrow> app_state" where
  "track_stop t s =
     (case tracks s t of None \<Rightarrow> s
      | Some trk \<Rightarrow> s\<lparr>tracks := (tracks s)(t \<mapsto> trk\<lparr>t_live := False\<rparr>)\<rparr>)"

definition set_enabled :: "bool \<Rightarrow> track_id \<Rightarrow> app_state \<Rightarrow> app_state" where
  "set_enabled b t s =
     (case tracks s t of None \<Rightarrow> s
      | Some trk \<Rightarrow> s\<lparr>tracks := (tracks s)(t \<mapsto> trk\<lparr>t_enabled := b\<rparr>)\<rparr>)"

definition removeTrack :: "stream_id \<Rightarrow> track_id \<Rightarrow> app_state \<Rightarrow> app_state" where
  "removeTrack sid t s =
     (case streams s sid of None \<Rightarrow> s
      | Some ts \<Rightarrow> s\<lparr>streams := (streams s)(sid \<mapsto> removeAll t ts)\<rparr>)"

definition upd_conn :: "pc_id \<Rightarrow> (pconn \<Rightarrow> pconn) \<Rightarrow> app_state \<Rightarrow> app_state" where
  "upd_conn p f s =
     (case conns s p of None \<Rightarrow> s | Some c \<Rightarrow> s\<lparr>conns := (conns s)(p \<mapsto> f c)\<rparr>)"

definition pc_close :: "pc_id \<Rightarrow> app_state \<Rightarrow> app_state" where
  "pc_close p s = upd_conn p (\<lambda>c. c\<lparr>pc_closed := True\<rparr>) s"

definition report :: "report \<Rightarrow> app_state \<Rightarrow> app_state" where
  "report r s = s\<lparr>reports := reports s @ [r]\<rparr>"

text \<open>
  \<^verbatim>\<open>pc.getSenders().find(s => s.track && s.track.kind === k)\<close>: the position of the first
  sender whose track is not null and has kind \<open>k\<close>.
\<close>

definition find_sender :: "app_state \<Rightarrow> track_kind \<Rightarrow> pconn \<Rightarrow> nat option" where
  "find_sender s k c =
     List.find (\<lambda>i. case pc_senders c ! i of None \<Rightarrow> False | Some t \<Rightarrow> has_kind s k t)
       [0 ..< length (pc_senders c)]"

definition sender_replaceTrack :: "pc_id \<Rightarrow> nat \<Rightarrow> track_id option \<Rightarrow> app_state \<Rightarrow> app_state" where
  "sender_replaceTrack p i t s = upd_conn p (\<lambda>c. c\<lparr>pc_senders := (pc_senders c)[i := t]\<rparr>) s"

definition pc_addTrack :: "pc_id \<Rightarrow> track_id \<Rightarrow> app_state \<Rightarrow> app_state" where
  "pc_addTrack p t s = upd_conn p (\<lambda>c. c\<lparr>pc_senders := pc_senders c @ [Some t]\<rparr>) s"

subsection \<open>Signal transport\<close>

text \<open>
  \<^verbatim>\<open>sendSignal\<close>: publishes only when the channel exists, a user is logged in and the
  channel is subscribed; otherwise the signal is dropped.
\<close>

definition sendSignal :: "signal_type \<Rightarrow> user_id option \<Rightarrow> payload \<Rightarrow> app_state \<Rightarrow> app_state" where
  "sendSignal ty rid p s =
     (case currentUser s of
        None \<Rightarrow> s
      | Some me \<Rightarrow>
          if signalingChannelRef s then
            if \<not> isSignalingConnectedRef s then s
            else s\<lparr>sent := sent s @
                   [\<lparr>sig_type = ty, senderId = me, recipientId = rid, sig_payload = p\<rparr>]\<rparr>
          else s)"

subsection \<open>Peer connection registry\<close>

text \<open>
  \<^verbatim>\<open>createPeerConnection\<close>: a new connection, registered under the peer's id. The
  callbacks it installs are \<open>ontrack\<close> below and the candidate relay, which is not modelled.
\<close>

definition createPeerConnection :: "user_id \<Rightarrow> app_state \<Rightarrow> pc_id \<times> app_state" where
  "createPeerConnection rid s =
     (next_obj s,
      s\<lparr>conns := (conns s)(next_obj s \<mapsto>
              \<lparr>pc_senders = [], pc_closed = False, pc_remote = None, pc_local = None\<rparr>),
        next_obj := Suc (next_obj s),
        peerConnectionsRef := AList.update rid (next_obj s) (peerConnectionsRef s)\<rparr>)"

text \<open>
  \<^verbatim>\<open>pc.ontrack\<close> for the connection to \<open>rid\<close>: the arriving track is a new browser object;
  \<open>ev_stream\<close> holds the other tracks of \<^verbatim>\<open>event.streams[0]\<close> when the event carries a stream.
\<close>

definition ontrack :: "user_id \<Rightarrow> track \<Rightarrow> track_id list option \<Rightarrow> app_state \<Rightarrow> app_state" where
  "ontrack rid trk ev_stream s =
     (let (t, s1) = new_track trk s in
      case map_of (remoteStreams s1) rid of
        Some existingStream \<Rightarrow>
          (let ts = getTracks s1 existingStream;
               (n, s2) = new_stream (if t \<in> set ts then ts else ts @ [t]) s1
           in s2\<lparr>remoteStreams := AList.update rid n (remoteStreams s2)\<rparr>)
      | None \<Rightarrow>
          (let (n, s2) = new_stream (case ev_stream of Some ts \<Rightarrow> ts @ [t] | None \<Rightarrow> [t]) s1
           in s2\<lparr>remoteStreams := AList.update rid n (remoteStreams s2)\<rparr>))"

subsection \<open>Teardown\<close>

definition stop_stream :: "stream_id \<Rightarrow> app_state \<Rightarrow> app_state" where
  "stop_stream sid s = fold track_stop (getTracks s sid) s"

definition cleanupCall :: "app_state \<Rightarrow> app_state" where
  "cleanupCall s =
     (let s1 = (case localAudioStreamRef s of
                  None \<Rightarrow> s
                | Some a \<Rightarrow> (stop_stream a s)\<lparr>localAudioStreamRef := None, localAudioStream := None\<rparr>);
          s2 = (case localVideoStreamRef s1 of
                  None \<Rightarrow> s1
                | Some v \<Rightarrow> (stop_stream v s1)\<lparr>localVideoStreamRef := None, localVideoStream := None\<rparr>);
          s3 = fold pc_close (map snd (peerConnectionsRef s2)) s2
      in s3\<lparr>peerConnectionsRef := [], localStream := None, remoteStreams := [],
            isInCall := False, activeCallData := None, isScreenSharing := False,
            isMicOn := False, isCameraOn := False\<rparr>)"

definition handleRemoteHangup :: "user_id \<Rightarrow> app_state \<Rightarrow> app_state" where
  "handleRemoteHangup sender s =
     (let s1 = (case map_of (peerConnectionsRef s) sender of
                  None \<Rightarrow> s
                | Some p \<Rightarrow> (pc_close p s)\<lparr>peerConnectionsRef :=
                                AList.delete sender (peerConnectionsRef s)\<rparr>);
          s2 = s1\<lparr>remoteStreams := AList.delete sender (remoteStreams s1)\<rparr>
      in case activeCallData s2 of
           None \<Rightarrow> s2
         | Some ids \<Rightarrow>
             (let newIds = filter (\<lambda>i. i \<noteq> sender) ids in
              if length newIds = 0 then (cleanupCall s2)\<lparr>activeCallData := None\<rparr>
              else s2\<lparr>activeCallData := Some newIds\<rparr>))"

subsection \<open>The signal handler\<close>

text \<open>JavaScript truthiness of an optional string: absent and empty are both falsy.\<close>

definition truthy :: "string option \<Rightarrow> bool" where
  "truthy r = (case r of None \<Rightarrow> False | Some x \<Rightarrow> x \<noteq> [])"

text \<open>\<^verbatim>\<open>data?.participantIds.includes(id)\<close>, read as a condition.\<close>

definition includes_id :: "user_id list option \<Rightarrow> user_id \<Rightarrow> bool" where
  "includes_id d x = (case d of None \<Rightarrow> False | Some ids \<Rightarrow> x \<in> set ids)"

text \<open>
  The case \<^verbatim>\<open>OFFER\<close>. A description that is missing or that the connection rejects makes
  \<^verbatim>\<open>setRemoteDescription\<close> throw, and the handler ends there.
\<close>

definition on_offer :: "env \<Rightarrow> user_id \<Rightarrow> payload \<Rightarrow> app_state \<Rightarrow> app_state" where
  "on_offer e sender p s =
     (let currentIsInCall = isInCallRef s; currentActiveCallData = activeCallDataRef s in
      if currentIsInCall \<and> \<not> includes_id currentActiveCallData sender then s
      else if currentIsInCall \<and> includes_id currentActiveCallData sender then
        (case map_of (peerConnectionsRef s) sender of
           None \<Rightarrow> s
         | Some pc \<Rightarrow>
             (case p_sdp p of
                None \<Rightarrow> s
              | Some d \<Rightarrow>
                  if \<not> setRemoteDescription_ok e sender then s
                  else
                    (let s1 = upd_conn pc (\<lambda>c. c\<lparr>pc_remote := Some d\<rparr>) s in
                     if \<not> createDescription_ok e sender then s1
                     else
                       (let answer = Sdp AnswerSdp (created_sdp e sender);
                            s2 = upd_conn pc (\<lambda>c. c\<lparr>pc_local := Some answer\<rparr>) s1
                        in sendSignal ANSWER (Some sender) (sdp_payload answer) s2))))
      else s\<lparr>incomingCall :=
               Some \<lparr>callerId = sender, ic_timestamp = now e, offer = p_sdp p\<rparr>\<rparr>)"

definition on_answer :: "env \<Rightarrow> user_id \<Rightarrow> payload \<Rightarrow> app_state \<Rightarrow> app_state" where
  "on_answer e sender p s =
     (case map_of (peerConnectionsRef s) sender of
        None \<Rightarrow> s
      | Some pc \<Rightarrow>
          (case p_sdp p of
             None \<Rightarrow> s
           | Some d \<Rightarrow>
               if \<not> setRemoteDescription_ok e sender then s
               else
                 (let s1 = upd_conn pc (\<lambda>c. c\<lparr>pc_remote := Some d\<rparr>) s in
                  s1\<lparr>activeCallData :=
                       (case activeCallData s1 of
                          None \<Rightarrow> None
                        | Some ids \<Rightarrow>
                            if sender \<in> set ids then Some ids else Some (ids @ [sender]))\<rparr>)))"

definition on_candidate :: "env \<Rightarrow> user_id \<Rightarrow> payload \<Rightarrow> app_state \<Rightarrow> app_state" where
  "on_candidate e sender p s =
     (case map_of (peerConnectionsRef s) sender of
        None \<Rightarrow> s
      | Some pc \<Rightarrow>
          if truthy (p_candidate p) then
            if addIceCandidate_ok e then s
            else report (ConsoleError ''Error adding ice candidate'') s
          else s)"

definition insert_notification :: "env \<Rightarrow> notification_row \<Rightarrow> app_state \<Rightarrow> app_state" where
  "insert_notification e r s =
     (let s1 = s\<lparr>db_notifications := db_notifications s @ [r]\<rparr> in
      if insert_notification_ok e then s1
      else report (ConsoleError ''Error creating missed call notification:'') s1)"

definition insert_message :: "env \<Rightarrow> message_row \<Rightarrow> app_state \<Rightarrow> app_state" where
  "insert_message e r s =
     (let s1 = s\<lparr>db_messages := db_messages s @ [r]\<rparr> in
      if insert_message_ok e then s1
      else report (ConsoleError ''Error creating missed call message:'') s1)"

definition missed_call_notification :: "env \<Rightarrow> user_id \<Rightarrow> user_id \<Rightarrow> string \<Rightarrow> notification_row" where
  "missed_call_notification e me sender callerName =
     \<lparr>n_id = notification_id e, n_recipient_id = me, n_sender_id = sender,
      n_type = ''MISSED_CALL'', n_title = ''Missed Call'',
      n_message = ''You missed a call from '' @ callerName,
      n_timestamp = now e, n_read = False, n_link_to = sender\<rparr>"

definition missed_call_message :: "env \<Rightarrow> user_id \<Rightarrow> user_id \<Rightarrow> message_row" where
  "missed_call_message e me sender =
     \<lparr>m_id = message_id e, m_sender_id = sender, m_recipient_id = me,
      m_text = ''Missed Call'', m_timestamp = now e, m_type = ''missed_call'',
      m_attachments = []\<rparr>"

definition on_hangup :: "env \<Rightarrow> user_id \<Rightarrow> user_id \<Rightarrow> app_state \<Rightarrow> app_state" where
  "on_hangup e me sender s =
     (let s1 =
        (case incomingCallRef s of
           None \<Rightarrow> s
         | Some ic \<Rightarrow>
             if callerId ic = sender then
               (let callerName = (case List.find (\<lambda>u. u_id u = sender) (usersRef s) of
                                    Some caller \<Rightarrow> u_name caller
                                  | None \<Rightarrow> ''Unknown User'');
                    s' = insert_notification e (missed_call_notification e me sender callerName) s;
                    s'' = insert_message e (missed_call_message e me sender) s'
                in s''\<lparr>incomingCall := None\<rparr>)
             else s)
      in handleRemoteHangup sender s1)"

definition on_chat_message :: "env \<Rightarrow> payload \<Rightarrow> app_state \<Rightarrow> app_state" where
  "on_chat_message e p s =
     (let msg = \<lparr>cm_id = (case p_chat_id p of
                            None \<Rightarrow> chat_id e
                          | Some i \<Rightarrow> if i = [] then chat_id e else i),
                 cm_text = p_chat_text p\<rparr>
      in if cm_id msg \<in> set (map cm_id (messages s)) then s
         else s\<lparr>messages := messages s @ [msg]\<rparr>)"

definition on_screen_stopped :: "user_id \<Rightarrow> payload \<Rightarrow> app_state \<Rightarrow> app_state" where
  "on_screen_stopped sender p s =
     (if \<not> p_hasCameraFallback p then
        (case map_of (remoteStreams s) sender of
           None \<Rightarrow> s
         | Some existing \<Rightarrow>
             (let (n, s1) = new_stream (getAudioTracks s existing) s
              in s1\<lparr>remoteStreams := AList.update sender n (remoteStreams s1)\<rparr>))
      else s)"

text \<open>
  The handler of the broadcast event \<^verbatim>\<open>signal\<close>. It is installed only while a user is
  logged in. The two filters come first, then the \<^verbatim>\<open>switch\<close> on the type.
\<close>

definition handle_signal :: "env \<Rightarrow> signal \<Rightarrow> app_state \<Rightarrow> app_state" where
  "handle_signal e sg s =
     (case currentUser s of
        None \<Rightarrow> s
      | Some me \<Rightarrow>
          if truthy (recipientId sg) \<and> recipientId sg \<noteq> Some me \<and> sig_type sg \<noteq> USER_ONLINE
          then s
          else if senderId sg = me then s
          else
            (case sig_type sg of
               USER_ONLINE \<Rightarrow> s
             | OFFER \<Rightarrow> on_offer e (senderId sg) (sig_payload sg) s
             | ANSWER \<Rightarrow> on_answer e (senderId sg) (sig_payload sg) s
             | CANDIDATE \<Rightarrow> on_candidate e (senderId sg) (sig_payload sg) s
             | HANGUP \<Rightarrow> on_hangup e me (senderId sg) s
             | CHAT_MESSAGE \<Rightarrow> on_chat_message e (sig_payload sg) s
             | SCREEN_STOPPED \<Rightarrow> on_screen_stopped (senderId sg) (sig_payload sg) s
             | CHAT_MSG \<Rightarrow> s
             | SCREEN_STARTED \<Rightarrow> s))"

text \<open>
  The effect \<^verbatim>\<open>Keep Refs in sync with state\<close>, run by React after a render in which one
  of the mirrored state variables changed.
\<close>

definition sync_refs :: "app_state \<Rightarrow> app_state" where
  "sync_refs s =
     s\<lparr>incomingCallRef := incomingCall s, isInCallRef := isInCall s,
       activeCallDataRef := activeCallData s, localStreamRef := localStream s,
       localAudioStreamRef := localAudioStream s,
       localVideoStreamRef := localVideoStream s, usersRef := users s\<rparr>"



subsection \<open>Local media controller\<close>

text \<open>\<^verbatim>\<open>a || b\<close> on two optional objects.\<close>

definition or_else :: "'a option \<Rightarrow> 'a option \<Rightarrow> 'a option" where
  "or_else a b = (case a of None \<Rightarrow> b | Some x \<Rightarrow> Some x)"

text \<open>The tracks a successful capture delivers: enabled and live.\<close>

definition captured :: "track_kind \<Rightarrow> bool \<Rightarrow> track" where
  "captured k scr = \<lparr>t_kind = k, t_enabled = True, t_live = True, t_screen = scr\<rparr>"

definition composeLocalStream :: "app_state \<Rightarrow> app_state" where
  "composeLocalStream s =
     (let ts = (case localAudioStreamRef s of None \<Rightarrow> [] | Some a \<Rightarrow> getTracks s a)
               @ (case localVideoStreamRef s of None \<Rightarrow> [] | Some v \<Rightarrow> getTracks s v);
          (composed, s1) = new_stream ts s
      in s1\<lparr>localStream := Some composed, localStreamRef := Some composed\<rparr>)"

text \<open>
  Functions of the same render share the state variables they close over. An operation
  that calls another one after it has set state passes the state it started from as \<open>c\<close>:
  the callee reads state variables there and the \<^verbatim>\<open>useRef\<close> cells in the current state.
\<close>

definition renegotiate_peer :: "env \<Rightarrow> user_id \<Rightarrow> pc_id \<Rightarrow> app_state \<Rightarrow> app_state" where
  "renegotiate_peer e rid pc s =
     (if createDescription_ok e rid then
        (let offer = Sdp OfferSdp (created_sdp e rid);
             s1 = upd_conn pc (\<lambda>c. c\<lparr>pc_local := Some offer\<rparr>) s
         in sendSignal OFFER (Some rid) (sdp_payload offer) s1)
      else report (ConsoleError ''Renegotiation failed'') s)"

definition renegotiate :: "env \<Rightarrow> app_state \<Rightarrow> app_state \<Rightarrow> app_state" where
  "renegotiate e c s =
     (case localStream c of
        None \<Rightarrow> s
      | Some l \<Rightarrow> fold (\<lambda>(rid, pc). renegotiate_peer e rid pc) (peerConnectionsRef s) s)"

text \<open>
  The loop bodies over \<^verbatim>\<open>peerConnectionsRef.current.entries()\<close>. Each \<^verbatim>\<open>try\<close> of the
  source is a test of the environment, its \<^verbatim>\<open>catch\<close> a report.
\<close>

definition attach_track ::
  "env \<Rightarrow> track_kind \<Rightarrow> track_id \<Rightarrow> string \<Rightarrow> string \<Rightarrow> user_id \<Rightarrow> pc_id \<Rightarrow> app_state \<Rightarrow> app_state" where
  "attach_track e k t msg_replace msg_add rid pc s =
     (case conns s pc of
        None \<Rightarrow> s
      | Some c \<Rightarrow>
          (case find_sender s k c of
             Some i \<Rightarrow>
               if replaceTrack_ok e rid then sender_replaceTrack pc i (Some t) s
               else report (ConsoleError msg_replace) s
           | None \<Rightarrow>
               if addTrack_ok e rid then pc_addTrack pc t s
               else report (ConsoleError msg_add) s))"

definition clear_video_sender :: "env \<Rightarrow> user_id \<Rightarrow> pc_id \<Rightarrow> app_state \<Rightarrow> app_state" where
  "clear_video_sender e rid pc s =
     (case conns s pc of
        None \<Rightarrow> s
      | Some c \<Rightarrow>
          (case find_sender s Video c of
             Some i \<Rightarrow>
               if replaceTrack_ok e rid then sender_replaceTrack pc i None s
               else report (ConsoleError ''replaceTrack null video failed'') s
           | None \<Rightarrow> s))"

definition unmute_sender :: "env \<Rightarrow> track_id \<Rightarrow> user_id \<Rightarrow> pc_id \<Rightarrow> app_state \<Rightarrow> app_state" where
  "unmute_sender e active rid pc s =
     (case conns s pc of
        None \<Rightarrow> s
      | Some c \<Rightarrow>
          (case find_sender s Audio c of
             Some i \<Rightarrow>
               if pc_senders c ! i \<noteq> Some active then
                 if replaceTrack_ok e rid then sender_replaceTrack pc i (Some active) s
                 else report (ConsoleError ''replaceTrack audio on unmute failed'') s
               else s
           | None \<Rightarrow>
               if addTrack_ok e rid then pc_addTrack pc active s
               else report (ConsoleError ''addTrack audio on unmute failed'') s))"

definition fix_audio_sender :: "env \<Rightarrow> track_id \<Rightarrow> user_id \<Rightarrow> pc_id \<Rightarrow> app_state \<Rightarrow> app_state" where
  "fix_audio_sender e activeAudio rid pc s =
     (case conns s pc of
        None \<Rightarrow> s
      | Some c \<Rightarrow>
          (case find_sender s Audio c of
             Some i \<Rightarrow>
               if pc_senders c ! i \<noteq> Some activeAudio then
                 if replaceTrack_ok e rid then sender_replaceTrack pc i (Some activeAudio) s
                 else report (ConsoleError ''replaceTrack audio failed'') s
               else s
           | None \<Rightarrow> s))"

text \<open>
  \<^verbatim>\<open>audioTracks.find(t => t.readyState === 'live') || audioTracks[0]\<close>; on an empty
  array the result is \<^verbatim>\<open>undefined\<close>.
\<close>

definition active_track :: "app_state \<Rightarrow> track_id list \<Rightarrow> track_id option" where
  "active_track s audioTracks =
     or_else (List.find (is_live s) audioTracks)
       (case audioTracks of [] \<Rightarrow> None | t # ts \<Rightarrow> Some t)"

text \<open>
  \<^verbatim>\<open>toggleMic\<close>: the first branch acquires the microphone, the second one works on the
  audio stream that exists.
\<close>

definition toggleMic :: "env \<Rightarrow> app_state \<Rightarrow> app_state" where
  "toggleMic e s =
     (case or_else (localAudioStreamRef s) (localAudioStream s) of
        None \<Rightarrow>
          if getUserMedia_ok e then
            (let (newTrack, s1) = new_track (captured Audio False) s;
                 (newAudioStream, s2) = new_stream [newTrack] s1;
                 s3 = s2\<lparr>localAudioStream := Some newAudioStream,
                         localAudioStreamRef := Some newAudioStream, isMicOn := True\<rparr>;
                 s4 = fold (\<lambda>(rid, pc). attach_track e Audio newTrack
                              ''replaceTrack audio failed'' ''addTrack audio failed'' rid pc)
                        (peerConnectionsRef s3) s3;
                 s5 = composeLocalStream s4
             in renegotiate e s s5)
          else report (Alert ''Could not access microphone.'')
                 (report (ConsoleError ''Failed to acquire microphone:'') s)
      | Some audioStream \<Rightarrow>
          (let audioTracks = getAudioTracks s audioStream;
               newStatus = (\<not> isMicOn s);
               s1 = fold (set_enabled newStatus) audioTracks s;
               s2 = s1\<lparr>isMicOn := newStatus\<rparr>
           in if newStatus then
                (case active_track s2 audioTracks of
                   None \<Rightarrow> s2
                 | Some active \<Rightarrow>
                     fold (\<lambda>(rid, pc). unmute_sender e active rid pc) (peerConnectionsRef s2) s2)
              else s2))"

text \<open>
  The camera-restoring loop of \<^verbatim>\<open>stopScreenSharing\<close>; the pair of flags is
  (\<^verbatim>\<open>negotiationNeeded\<close>, \<^verbatim>\<open>hasCameraFallback\<close>).
\<close>

definition restore_camera ::
  "env \<Rightarrow> track_id \<Rightarrow> user_id \<Rightarrow> pc_id \<Rightarrow> bool \<times> bool \<times> app_state \<Rightarrow> bool \<times> bool \<times> app_state" where
  "restore_camera e camTrack rid pc acc =
     (case acc of (negotiationNeeded, hasCameraFallback, s) \<Rightarrow>
        (case conns s pc of
           None \<Rightarrow> acc
         | Some c \<Rightarrow>
             (case find_sender s Video c of
                Some i \<Rightarrow>
                  if replaceTrack_ok e rid then
                    (let s1 = sender_replaceTrack pc i (Some camTrack) s in
                     if setParameters_ok e rid then (negotiationNeeded, hasCameraFallback, s1)
                     else (negotiationNeeded, False,
                           report (ConsoleError ''replaceTrack camera failed'') s1))
                  else (negotiationNeeded, False,
                        report (ConsoleError ''replaceTrack camera failed'') s)
              | None \<Rightarrow>
                  if addTrack_ok e rid then (True, hasCameraFallback, pc_addTrack pc camTrack s)
                  else (negotiationNeeded, hasCameraFallback,
                        report (ConsoleError ''addTrack camera failed'') s))))"

definition stop_screen_tracks :: "stream_id \<Rightarrow> app_state \<Rightarrow> app_state" where
  "stop_screen_tracks v s =
     fold (\<lambda>t x. if is_screen x t then removeTrack v t (track_stop t x) else x)
       (getVideoTracks s v) s"

text \<open>
  \<^verbatim>\<open>stopScreenSharing\<close> in the two steps its comments number. Step 1 puts the camera
  back on the connections when it was on before the share (acquiring it first), and clears
  the video senders otherwise or when the camera cannot be acquired again.
\<close>

definition restore_or_clear_video :: "env \<Rightarrow> app_state \<Rightarrow> bool \<times> bool \<times> app_state" where
  "restore_or_clear_video e s =
     (if prevCameraWasOnRef s then
        (if reacquire_ok e then
           (let (camTrack, a1) = new_track (captured Video False) s;
                (newVideoStream, a2) = new_stream [camTrack] a1;
                a3 = a2\<lparr>localVideoStream := Some newVideoStream,
                        localVideoStreamRef := Some newVideoStream, isCameraOn := True\<rparr>;
                (n, f, a4) = fold (\<lambda>(rid, pc). restore_camera e camTrack rid pc)
                               (peerConnectionsRef a3) (False, True, a3)
            in (n, f, a4\<lparr>prevCameraWasOnRef := False\<rparr>))
         else
           (let b1 = report (ConsoleError ''Failed to re-acquire camera after screen stop:'') s;
                b2 = fold (\<lambda>(rid, pc). clear_video_sender e rid pc) (peerConnectionsRef b1) b1
            in (False, False, b2\<lparr>prevCameraWasOnRef := False\<rparr>)))
      else
        (False, False,
         fold (\<lambda>(rid, pc). clear_video_sender e rid pc) (peerConnectionsRef s) s))"

text \<open>
  Step 2 stops the screen tracks of the old video stream, clears \<open>isScreenSharing\<close>,
  repairs the audio senders, recomposes the preview, renegotiates when a track was added and
  tells the peers.
\<close>

definition break_screen ::
  "env \<Rightarrow> app_state \<Rightarrow> stream_id \<Rightarrow> stream_id option \<Rightarrow> bool \<Rightarrow> bool \<Rightarrow> app_state \<Rightarrow> app_state" where
  "break_screen e c v aStream negotiationNeeded hasCameraFallback s1 =
     (let s2 = stop_screen_tracks v s1;
          s3 = s2\<lparr>isScreenSharing := False\<rparr>;
          s4 = (case aStream of
                  None \<Rightarrow> s3
                | Some a \<Rightarrow>
                    (case List.find (is_live s3) (getAudioTracks s3 a) of
                       None \<Rightarrow> s3
                     | Some activeAudio \<Rightarrow>
                         fold (\<lambda>(rid, pc). fix_audio_sender e activeAudio rid pc)
                           (peerConnectionsRef s3) s3));
          s5 = composeLocalStream s4;
          s6 = (if negotiationNeeded then renegotiate e c s5 else s5)
      in sendSignal SCREEN_STOPPED None
           (empty_payload\<lparr>p_hasCameraFallback := hasCameraFallback\<rparr>) s6)"

definition stopScreenSharing :: "env \<Rightarrow> app_state \<Rightarrow> app_state \<Rightarrow> app_state" where
  "stopScreenSharing e c s =
     (let vStream = or_else (localVideoStreamRef s) (localVideoStream c);
          aStream = or_else (localAudioStreamRef s) (localAudioStream c)
      in case vStream of
           None \<Rightarrow> s
         | Some v \<Rightarrow>
             if length (peerConnectionsRef s) = 0 then s
             else
               (let (negotiationNeeded, hasCameraFallback, s1) = restore_or_clear_video e s
                in break_screen e c v aStream negotiationNeeded hasCameraFallback s1))"

definition stop_camera_tracks :: "stream_id \<Rightarrow> app_state \<Rightarrow> app_state" where
  "stop_camera_tracks v s =
     fold (\<lambda>t x. if \<not> is_screen x t then removeTrack v t (track_stop t x) else x)
       (getVideoTracks s v) s"

definition toggleCamera :: "env \<Rightarrow> app_state \<Rightarrow> app_state" where
  "toggleCamera e s =
     (let videoStream = or_else (localVideoStreamRef s) (localVideoStream s) in
      if isCameraOn s then
        (case videoStream of
           None \<Rightarrow> s
         | Some v \<Rightarrow>
             (let s1 = stop_camera_tracks v s;
                  s2 = s1\<lparr>localVideoStream := (if length (getTracks s1 v) \<noteq> 0 then Some v else None)\<rparr>;
                  s3 = s2\<lparr>localVideoStreamRef := localVideoStream s\<rparr>;
                  s4 = s3\<lparr>isCameraOn := False\<rparr>;
                  s5 = fold (\<lambda>(rid, pc). clear_video_sender e rid pc) (peerConnectionsRef s4) s4
              in composeLocalStream s5))
      else if getUserMedia_ok e then
        (let (videoTrack, s1) = new_track (captured Video False) s;
             s2 = (if isScreenSharing s then stopScreenSharing e s s1 else s1);
             (newVideoStream, s3) = new_stream [videoTrack] s2;
             s4 = s3\<lparr>localVideoStream := Some newVideoStream,
                     localVideoStreamRef := Some newVideoStream, isCameraOn := True\<rparr>;
             s5 = fold (\<lambda>(rid, pc). attach_track e Video videoTrack
                          ''replaceTrack video failed'' ''addTrack video failed'' rid pc)
                    (peerConnectionsRef s4) s4;
             s6 = composeLocalStream s5
         in renegotiate e s s6)
      else report (ConsoleError ''Failed to access camera'') s)"

text \<open>
  The screen-installing loop of \<^verbatim>\<open>toggleScreenShare\<close>; the flag is
  \<^verbatim>\<open>negotiationNeeded\<close>, set only when the added sender also took its parameters.
\<close>

definition install_screen ::
  "env \<Rightarrow> track_id \<Rightarrow> user_id \<Rightarrow> pc_id \<Rightarrow> bool \<times> app_state \<Rightarrow> bool \<times> app_state" where
  "install_screen e screenTrack rid pc acc =
     (case acc of (negotiationNeeded, s) \<Rightarrow>
        (case conns s pc of
           None \<Rightarrow> acc
         | Some c \<Rightarrow>
             (case find_sender s Video c of
                Some i \<Rightarrow>
                  if replaceTrack_ok e rid then
                    (let s1 = sender_replaceTrack pc i (Some screenTrack) s in
                     if setParameters_ok e rid then (negotiationNeeded, s1)
                     else (negotiationNeeded,
                           report (ConsoleError ''replaceTrack/setParameters screen failed'') s1))
                  else (negotiationNeeded,
                        report (ConsoleError ''replaceTrack/setParameters screen failed'') s)
              | None \<Rightarrow>
                  if addTrack_ok e rid then
                    (let s1 = pc_addTrack pc screenTrack s in
                     if setParameters_ok e rid then (True, s1)
                     else (negotiationNeeded, report (ConsoleError ''addTrack screen failed'') s1))
                  else (negotiationNeeded, report (ConsoleError ''addTrack screen failed'') s))))"

definition toggleScreenShare :: "env \<Rightarrow> app_state \<Rightarrow> app_state" where
  "toggleScreenShare e s =
     (if length (peerConnectionsRef s) = 0 then s
      else if isScreenSharing s then stopScreenSharing e s s
      else if getDisplayMedia_ok e then
        (let (screenTrack, s1) = new_track (captured Video True) s;
             oldCameraStream = (if isCameraOn s then localVideoStreamRef s1 else None);
             s2 = (if isCameraOn s then s1\<lparr>prevCameraWasOnRef := True, isCameraOn := False\<rparr>
                   else s1\<lparr>prevCameraWasOnRef := False\<rparr>);
             (newVideoStream, s3) = new_stream [screenTrack] s2;
             s4 = s3\<lparr>localVideoStream := Some newVideoStream,
                     localVideoStreamRef := Some newVideoStream\<rparr>;
             (negotiationNeeded, s5) =
               fold (\<lambda>(rid, pc). install_screen e screenTrack rid pc)
                 (peerConnectionsRef s4) (False, s4);
             s6 = (case oldCameraStream of
                     None \<Rightarrow> s5
                   | Some old \<Rightarrow> fold track_stop (getVideoTracks s5 old) s5);
             s7 = s6\<lparr>isScreenSharing := True\<rparr>;
             s8 = composeLocalStream s7;
             s9 = (if negotiationNeeded then renegotiate e s s8 else s8)
         in sendSignal SCREEN_STARTED None empty_payload s9)
      else report (ConsoleError ''Error starting screen share:'') s)"

subsection \<open>Call session\<close>

text \<open>
  One \<^verbatim>\<open>try\<close> block that creates the connection to \<open>rid\<close>, adds the tracks of the local
  stream and sends the offer; \<open>msg\<close> is what its \<^verbatim>\<open>catch\<close> logs.
\<close>

definition connect_peer :: "env \<Rightarrow> string \<Rightarrow> stream_id \<Rightarrow> user_id \<Rightarrow> app_state \<Rightarrow> app_state" where
  "connect_peer e msg stream rid s =
     (let (pc, s1) = createPeerConnection rid s in
      if getTracks s1 stream \<noteq> [] \<and> \<not> addTrack_ok e rid then report (ConsoleError msg) s1
      else
        (let s2 = fold (pc_addTrack pc) (getTracks s1 stream) s1 in
         if createDescription_ok e rid then
           (let offer = Sdp OfferSdp (created_sdp e rid);
                s3 = upd_conn pc (\<lambda>c. c\<lparr>pc_local := Some offer\<rparr>) s2
            in sendSignal OFFER (Some rid) (sdp_payload offer) s3)
         else report (ConsoleError msg) s2))"

text \<open>The muted audio-only stream that a call starts with.\<close>

definition acquire_muted :: "app_state \<Rightarrow> stream_id \<times> app_state" where
  "acquire_muted s =
     (let (t, s1) = new_track (captured Audio False) s;
          (stream, s2) = new_stream [t] s1
      in (stream, fold (set_enabled False) (getAudioTracks s2 stream) s2))"

definition startGroupCall :: "env \<Rightarrow> user_id list \<Rightarrow> app_state \<Rightarrow> app_state" where
  "startGroupCall e recipientIds s =
     (if currentUser s = None then s
      else if length recipientIds = 0 then s
      else
        (let acquired =
               (case localStream s of
                  Some stream \<Rightarrow> Some (stream, s)
                | None \<Rightarrow>
                    if getUserMedia_ok e then
                      (let (stream, s1) = acquire_muted s;
                           s2 = s1\<lparr>isMicOn := False, isCameraOn := False\<rparr>
                       in Some (stream, s2\<lparr>localStream := Some stream\<rparr>))
                    else None)
         in case acquired of
              None \<Rightarrow>
                report (Alert ''Could not access microphone. Call cannot start.'')
                  (report (ConsoleError ''Error getting user media'') s)
            | Some (stream, s3) \<Rightarrow>
                (let s4 = s3\<lparr>isInCall := True, activeCallData := Some recipientIds\<rparr>
                 in fold (\<lambda>rid. connect_peer e (''Failed to call '' @ rid) stream rid)
                      recipientIds s4)))"

definition startCall :: "env \<Rightarrow> user_id \<Rightarrow> app_state \<Rightarrow> app_state" where
  "startCall e recipient s = startGroupCall e [recipient] s"

definition initiateCallConnection :: "env \<Rightarrow> app_state \<Rightarrow> user_id \<Rightarrow> app_state \<Rightarrow> app_state" where
  "initiateCallConnection e c recipient s =
     (case localStream c of
        Some stream \<Rightarrow> connect_peer e ''Error initiating connection:'' stream recipient s
      | None \<Rightarrow>
          if getUserMedia_ok e then
            (let (stream, s1) = acquire_muted s;
                 s2 = s1\<lparr>localStream := Some stream, isMicOn := False\<rparr>
             in connect_peer e ''Error initiating connection:'' stream recipient s2)
          else report (ConsoleError ''No audio device found'') s)"

definition addToCall :: "env \<Rightarrow> user_id \<Rightarrow> app_state \<Rightarrow> app_state" where
  "addToCall e recipient s =
     (if currentUser s = None then s
      else if \<not> isInCall s then s
      else if activeCallData s = None then s
      else
        (let s1 = initiateCallConnection e s recipient s in
         s1\<lparr>activeCallData :=
              (case activeCallData s1 of
                 None \<Rightarrow> None
               | Some ids \<Rightarrow> Some (ids @ [recipient]))\<rparr>))"

definition acceptIncomingCall :: "env \<Rightarrow> app_state \<Rightarrow> app_state" where
  "acceptIncomingCall e s =
     (case incomingCall s of
        None \<Rightarrow> s
      | Some ic \<Rightarrow>
          if currentUser s = None then s
          else if \<not> getUserMedia_ok e then
            report (ConsoleError ''Could not access microphone'') s
          else
            (let (stream, s1) = acquire_muted s;
                 s2 = s1\<lparr>isMicOn := False, isCameraOn := False\<rparr>;
                 s3 = s2\<lparr>localStream := Some stream\<rparr>;
                 (pc, s4) = createPeerConnection (callerId ic) s3
             in if getTracks s4 stream \<noteq> [] \<and> \<not> addTrack_ok e (callerId ic)
                then report (ConsoleError ''Error accepting call:'') s4
                else
                  (let s5 = fold (pc_addTrack pc) (getTracks s4 stream) s4;
                       answered =
                         (case offer ic of
                            None \<Rightarrow> Inr s5
                          | Some d \<Rightarrow>
                              if \<not> setRemoteDescription_ok e (callerId ic) then Inl s5
                              else
                                (let s6 = upd_conn pc (\<lambda>c. c\<lparr>pc_remote := Some d\<rparr>) s5 in
                                 if \<not> createDescription_ok e (callerId ic) then Inl s6
                                 else
                                   (let answer = Sdp AnswerSdp (created_sdp e (callerId ic));
                                        s7 = upd_conn pc (\<lambda>c. c\<lparr>pc_local := Some answer\<rparr>) s6
                                    in Inr (sendSignal ANSWER (Some (callerId ic))
                                              (sdp_payload answer) s7))))
                   in case answered of
                        Inl thrown \<Rightarrow> report (ConsoleError ''Error accepting call:'') thrown
                      | Inr s8 \<Rightarrow>
                          s8\<lparr>isInCall := True, activeCallData := Some [callerId ic],
                             incomingCall := None\<rparr>)))"

definition rejectIncomingCall :: "app_state \<Rightarrow> app_state" where
  "rejectIncomingCall s =
     (case incomingCall s of
        None \<Rightarrow> s
      | Some ic \<Rightarrow>
          if currentUser s = None then s
          else (sendSignal HANGUP (Some (callerId ic)) empty_payload s)\<lparr>incomingCall := None\<rparr>)"

definition endCall :: "app_state \<Rightarrow> app_state" where
  "endCall s =
     (let s1 = (case activeCallData s of
                  None \<Rightarrow> s
                | Some ids \<Rightarrow>
                    if currentUser s = None then s
                    else fold (\<lambda>pid. sendSignal HANGUP (Some pid) empty_payload) ids s)
      in cleanupCall s1)"

subsection \<open>Runs of the provider\<close>

text \<open>
  What can happen to the provider: a signal arrives, a track arrives on a connection, the
  shared screen track ends (its \<^verbatim>\<open>onended\<close> calls \<^verbatim>\<open>stopScreenSharing\<close>), or the view
  calls one of the functions the context exports.
\<close>

datatype event =
  Signal signal
  | OnTrack user_id track "track_id list option"
  | ScreenTrackEnded
  | ToggleMic
  | ToggleCamera
  | ToggleScreenShare
  | StartCall user_id
  | StartGroupCall "user_id list"
  | AddToCall user_id
  | AcceptIncomingCall
  | RejectIncomingCall
  | EndCall

fun run_event :: "env \<Rightarrow> event \<Rightarrow> app_state \<Rightarrow> app_state" where
  "run_event e (Signal sg) s = handle_signal e sg s"
| "run_event e (OnTrack rid trk ev) s = ontrack rid trk ev s"
| "run_event e ScreenTrackEnded s = stopScreenSharing e s s"
| "run_event e ToggleMic s = toggleMic e s"
| "run_event e ToggleCamera s = toggleCamera e s"
| "run_event e ToggleScreenShare s = toggleScreenShare e s"
| "run_event e (StartCall rid) s = startCall e rid s"
| "run_event e (StartGroupCall rids) s = startGroupCall e rids s"
| "run_event e (AddToCall rid) s = addToCall e rid s"
| "run_event e AcceptIncomingCall s = acceptIncomingCall e s"
| "run_event e RejectIncomingCall s = rejectIncomingCall s"
| "run_event e EndCall s = endCall s"

text \<open>
  After an operation React renders again, and the effect that mirrors state into the
  \<^verbatim>\<open>useRef\<close> cells runs when one of its dependencies has changed.
\<close>

definition mirrored ::
  "app_state \<Rightarrow> incoming_call option \<times> bool \<times> user_id list option \<times> stream_id option
     \<times> stream_id option \<times> stream_id option \<times> user list" where
  "mirrored s =
     (incomingCall s, isInCall s, activeCallData s, localStream s, localAudioStream s,
      localVideoStream s, users s)"

definition rerender :: "app_state \<Rightarrow> app_state \<Rightarrow> app_state" where
  "rerender s s' = (if mirrored s' = mirrored s then s' else sync_refs s')"

definition step :: "env \<Rightarrow> event \<Rightarrow> app_state \<Rightarrow> app_state" where
  "step e ev s = rerender s (run_event e ev s)"

fun run :: "(env \<times> event) list \<Rightarrow> app_state \<Rightarrow> app_state" where
  "run [] s = s"
| "run ((e, ev) # rest) s = run rest (step e ev s)"

text \<open>An environment in which every request is granted and every call succeeds.\<close>

definition all_ok :: env where
  "all_ok =
     \<lparr>now = 0, notification_id = ''n-0'', message_id = ''m-0'', chat_id = ''c-0'',
      getUserMedia_ok = True, reacquire_ok = True, getDisplayMedia_ok = True,
      setRemoteDescription_ok = (\<lambda>p. True), createDescription_ok = (\<lambda>p. True),
      created_sdp = (\<lambda>p. ''v=0''), replaceTrack_ok = (\<lambda>p. True),
      addTrack_ok = (\<lambda>p. True), setParameters_ok = (\<lambda>p. True),
      addIceCandidate_ok = True, insert_notification_ok = True,
      insert_message_ok = True\<rparr>"


subsection \<open>Example runs\<close>

text \<open>
  The local user is \<open>u1\<close>. The states below are reached from the initial state by the
  runs shown; they are the inputs at which the theorems are instantiated.
\<close>

definition signal_to_u1 :: "signal_type \<Rightarrow> user_id \<Rightarrow> payload \<Rightarrow> signal" where
  "signal_to_u1 ty sender p =
     \<lparr>sig_type = ty, senderId = sender, recipientId = Some ''u1'', sig_payload = p\<rparr>"

definition u1_idle :: app_state where
  "u1_idle = initial_state ''u1'' [\<lparr>u_id = ''u2'', u_name = ''Bo''\<rparr>]"

definition u1_ringing :: app_state where
  "u1_ringing =
     run [(all_ok, Signal (signal_to_u1 OFFER ''u2'' (sdp_payload (Sdp OfferSdp ''o''))))] u1_idle"

definition u1_calling_u2 :: app_state where
  "u1_calling_u2 = run [(all_ok, StartCall ''u2'')] u1_idle"

definition u1_in_call_muted :: app_state where
  "u1_in_call_muted =
     run [(all_ok, StartCall ''u2''), (all_ok, ToggleMic), (all_ok, ToggleMic)] u1_idle"

definition u1_unmuted_then_called :: app_state where
  "u1_unmuted_then_called =
     run [(all_ok, ToggleMic),
          (all_ok, Signal (signal_to_u1 OFFER ''u2'' (sdp_payload (Sdp OfferSdp ''o'')))),
          (all_ok, AcceptIncomingCall)] u1_idle"

definition u1_sharing_after_camera :: app_state where
  "u1_sharing_after_camera =
     run [(all_ok, StartCall ''u2''),
          (all_ok, Signal (signal_to_u1 ANSWER ''u2'' (sdp_payload (Sdp AnswerSdp ''a'')))),
          (all_ok, ToggleCamera), (all_ok, ToggleScreenShare)] u1_idle"

text \<open>Every capture request is refused.\<close>

definition capture_denied :: env where
  "capture_denied =
     all_ok\<lparr>getUserMedia_ok := False, reacquire_ok := False, getDisplayMedia_ok := False\<rparr>"

text \<open>The browser rejects every remote description.\<close>

definition offer_rejected :: env where
  "offer_rejected = all_ok\<lparr>setRemoteDescription_ok := (\<lambda>p. False)\<rparr>"

text \<open>
  \<open>u2\<close> calls, \<open>u1\<close> accepts but the browser rejects the offer; \<open>u1\<close> shares the screen
  on the connection that was registered; \<open>u2\<close> hangs up; \<open>u1\<close> turns the camera on.
\<close>

definition u1_camera_and_screen :: app_state where
  "u1_camera_and_screen =
     run [(all_ok, Signal (signal_to_u1 OFFER ''u2'' (sdp_payload (Sdp OfferSdp ''o'')))),
          (offer_rejected, AcceptIncomingCall),
          (all_ok, ToggleScreenShare),
          (all_ok, Signal (signal_to_u1 HANGUP ''u2'' empty_payload)),
          (all_ok, ToggleCamera)] u1_idle"

text \<open>
  \<open>u2\<close> calls, \<open>u1\<close> accepts but the browser rejects the offer: the connection stays
  registered and no call is active.
\<close>

definition u1_accept_failed :: app_state where
  "u1_accept_failed =
     run [(all_ok, Signal (signal_to_u1 OFFER ''u2'' (sdp_payload (Sdp OfferSdp ''o'')))),
          (offer_rejected, AcceptIncomingCall)] u1_idle"

text \<open>\<open>u1\<close> calls \<open>u2\<close>, and \<open>u2\<close> hangs up.\<close>

definition u1_after_remote_hangup :: app_state where
  "u1_after_remote_hangup =
     run [(all_ok, StartCall ''u2''),
          (all_ok, Signal (signal_to_u1 HANGUP ''u2'' empty_payload))] u1_idle"

subsection \<open>Observations used in the properties\<close>

text \<open>
  A call begins muted: the microphone flag is off, there is a local stream, it has an audio
  track, and every audio track of it is disabled.
\<close>

definition begins_muted :: "app_state \<Rightarrow> bool" where
  "begins_muted s =
     (\<not> isMicOn s \<and>
      (case localStream s of
         None \<Rightarrow> False
       | Some stream \<Rightarrow>
           getAudioTracks s stream \<noteq> [] \<and>
           list_all (\<lambda>t. \<not> is_enabled s t) (getAudioTracks s stream)))"



section \<open>Properties\<close>

subsection \<open>Unfolding the model\<close>

lemmas model_defs =
  initial_state_def new_track_def new_stream_def getTracks_def has_kind_def getAudioTracks_def
  getVideoTracks_def is_live_def is_enabled_def is_screen_def track_stop_def set_enabled_def
  removeTrack_def upd_conn_def pc_close_def report_def find_sender_def sender_replaceTrack_def
  pc_addTrack_def sendSignal_def createPeerConnection_def ontrack_def stop_stream_def
  cleanupCall_def handleRemoteHangup_def truthy_def includes_id_def on_offer_def on_answer_def
  on_candidate_def insert_notification_def insert_message_def missed_call_notification_def
  missed_call_message_def on_hangup_def on_chat_message_def on_screen_stopped_def
  handle_signal_def sync_refs_def or_else_def captured_def composeLocalStream_def
  renegotiate_peer_def renegotiate_def attach_track_def clear_video_sender_def unmute_sender_def
  fix_audio_sender_def active_track_def toggleMic_def restore_camera_def stop_screen_tracks_def
  restore_or_clear_video_def break_screen_def
  stopScreenSharing_def stop_camera_tracks_def toggleCamera_def install_screen_def
  toggleScreenShare_def connect_peer_def acquire_muted_def startGroupCall_def startCall_def
  initiateCallConnection_def addToCall_def acceptIncomingCall_def rejectIncomingCall_def
  endCall_def mirrored_def rerender_def step_def all_ok_def empty_payload_def sdp_payload_def

lemmas example_defs =
  signal_to_u1_def u1_idle_def u1_ringing_def u1_calling_u2_def u1_in_call_muted_def
  u1_unmuted_then_called_def u1_sharing_after_camera_def capture_denied_def offer_rejected_def
  u1_camera_and_screen_def u1_after_remote_hangup_def u1_accept_failed_def

lemma u1_idle_simps:
  "currentUser u1_idle = Some ''u1''" "peerConnectionsRef u1_idle = []"
  "isInCallRef u1_idle = False" "incomingCallRef u1_idle = None"
  "localStream u1_idle = None" "localAudioStream u1_idle = None"
  "localAudioStreamRef u1_idle = None"
  by (simp_all add: u1_idle_def initial_state_def)

lemma u1_ringing_simps:
  "currentUser u1_ringing = Some ''u1''"
  "incomingCallRef u1_ringing =
     Some \<lparr>callerId = ''u2'', ic_timestamp = 0, offer = Some (Sdp OfferSdp ''o'')\<rparr>"
  "incomingCall u1_ringing = incomingCallRef u1_ringing"
  "db_messages u1_ringing = []" "db_notifications u1_ringing = []"
  "localStream u1_ringing = None"
  by (simp_all add: example_defs model_defs Let_def)

lemma u1_calling_u2_simps:
  "currentUser u1_calling_u2 = Some ''u1''"
  "peerConnectionsRef u1_calling_u2 = [(''u2'', 2)]"
  "localVideoStreamRef u1_calling_u2 = None" "localVideoStream u1_calling_u2 = None"
  "isInCallRef u1_calling_u2" "activeCallDataRef u1_calling_u2 = Some [''u2'']"
  "activeCallData u1_calling_u2 = Some [''u2'']"
  "conns u1_calling_u2 2 =
     Some \<lparr>pc_senders = [Some 0], pc_closed = False, pc_remote = None,
           pc_local = Some (Sdp OfferSdp ''v=0'')\<rparr>"
  "signalingChannelRef u1_calling_u2" "isSignalingConnectedRef u1_calling_u2"
  "map sig_type (sent u1_calling_u2) = [OFFER]"
  "isCameraOn u1_calling_u2 = False" "isScreenSharing u1_calling_u2 = False"
  by (simp_all add: example_defs model_defs Let_def)

subsection \<open>What an operation leaves alone\<close>

lemma fold_frame: "(\<And>x a. g (f x a) = g a) \<Longrightarrow> g (fold f xs a) = g a"
  by (induction xs arbitrary: a) simp_all

lemma track_stop_frame:
  "incomingCall (track_stop t s) = incomingCall s"
  "db_notifications (track_stop t s) = db_notifications s"
  "db_messages (track_stop t s) = db_messages s"
  "peerConnectionsRef (track_stop t s) = peerConnectionsRef s"
  "localVideoStreamRef (track_stop t s) = localVideoStreamRef s"
  by (simp_all add: track_stop_def split: option.splits)

lemma pc_close_frame:
  "incomingCall (pc_close p s) = incomingCall s"
  "db_notifications (pc_close p s) = db_notifications s"
  "db_messages (pc_close p s) = db_messages s"
  by (simp_all add: pc_close_def upd_conn_def split: option.splits)

lemma stop_stream_frame:
  "incomingCall (stop_stream a s) = incomingCall s"
  "db_notifications (stop_stream a s) = db_notifications s"
  "db_messages (stop_stream a s) = db_messages s"
  "peerConnectionsRef (stop_stream a s) = peerConnectionsRef s"
  "localVideoStreamRef (stop_stream a s) = localVideoStreamRef s"
  unfolding stop_stream_def by (rule fold_frame, simp add: track_stop_frame)+

lemma cleanupCall_frame:
  "incomingCall (cleanupCall s) = incomingCall s"
  "db_notifications (cleanupCall s) = db_notifications s"
  "db_messages (cleanupCall s) = db_messages s"
  by (simp_all add: cleanupCall_def Let_def stop_stream_frame pc_close_frame
        fold_frame [of incomingCall] fold_frame [of db_notifications] fold_frame [of db_messages]
        split: option.splits)

lemma handleRemoteHangup_frame:
  "incomingCall (handleRemoteHangup x s) = incomingCall s"
  "db_notifications (handleRemoteHangup x s) = db_notifications s"
  "db_messages (handleRemoteHangup x s) = db_messages s"
  by (simp_all add: handleRemoteHangup_def Let_def cleanupCall_frame pc_close_frame
        split: option.splits)

lemma fold_pcs_frame:
  "(\<And>rid pc a. g (f rid pc a) = g a) \<Longrightarrow> g (fold (\<lambda>(rid, pc). f rid pc) xs a) = g a"
  by (induction xs arbitrary: a) auto

lemma upd_conn_frame:
  "tracks (upd_conn p f s) = tracks s" "streams (upd_conn p f s) = streams s"
  "isMicOn (upd_conn p f s) = isMicOn s" "localStream (upd_conn p f s) = localStream s"
  by (simp_all add: upd_conn_def split: option.splits)

lemma sendSignal_frame:
  "tracks (sendSignal ty r p s) = tracks s" "streams (sendSignal ty r p s) = streams s"
  "isMicOn (sendSignal ty r p s) = isMicOn s" "localStream (sendSignal ty r p s) = localStream s"
  by (simp_all add: sendSignal_def split: option.splits)

lemma report_frame:
  "tracks (report r s) = tracks s" "streams (report r s) = streams s"
  "isMicOn (report r s) = isMicOn s" "localStream (report r s) = localStream s"
  by (simp_all add: report_def)

lemma pc_addTrack_frame:
  "tracks (pc_addTrack p t s) = tracks s" "streams (pc_addTrack p t s) = streams s"
  "isMicOn (pc_addTrack p t s) = isMicOn s" "localStream (pc_addTrack p t s) = localStream s"
  by (simp_all add: pc_addTrack_def upd_conn_def split: option.splits)

lemma connect_peer_frame:
  "tracks (connect_peer e m st rid s) = tracks s"
  "streams (connect_peer e m st rid s) = streams s"
  "isMicOn (connect_peer e m st rid s) = isMicOn s"
  "localStream (connect_peer e m st rid s) = localStream s"
  by (simp_all add: connect_peer_def createPeerConnection_def Let_def report_def sendSignal_def
        upd_conn_def pc_addTrack_frame
        fold_frame [of tracks] fold_frame [of streams] fold_frame [of isMicOn]
        fold_frame [of localStream] split: option.splits)

lemma isScreenSharing_frame:
  "isScreenSharing (sendSignal ty r p s) = isScreenSharing s"
  "isScreenSharing (report x s) = isScreenSharing s"
  "isScreenSharing (upd_conn pc f s) = isScreenSharing s"
  "isScreenSharing (composeLocalStream s) = isScreenSharing s"
  by (simp_all add: sendSignal_def report_def upd_conn_def composeLocalStream_def new_stream_def
        Let_def split: option.splits)

lemma isScreenSharing_renegotiate:
  "isScreenSharing (renegotiate e c s) = isScreenSharing s"
  by (simp add: renegotiate_def renegotiate_peer_def Let_def isScreenSharing_frame
        fold_pcs_frame [of isScreenSharing] split: option.splits)

lemma isScreenSharing_fix_audio:
  "isScreenSharing (fix_audio_sender e t rid pc s) = isScreenSharing s"
  by (simp add: fix_audio_sender_def sender_replaceTrack_def isScreenSharing_frame
        split: option.splits)



subsection \<open>Missed calls\<close>

text \<open>
  Claim C1. A \<^verbatim>\<open>HANGUP\<close> that reaches the \<^verbatim>\<open>switch\<close> (its sender is not the local user,
  its recipient is absent, empty or the local user) and whose sender is the caller of the pending
  incoming call hands exactly one row of type \<^verbatim>\<open>missed_call\<close> to the table of messages
  (sender the caller, recipient the local user) and exactly one row of type
  \<^verbatim>\<open>MISSED_CALL\<close> to the table of notifications (recipient the local user, sender the
  caller), and clears the incoming call; once the mirror effect has run the
  \<^verbatim>\<open>useRef\<close> cell is cleared too. A \<^verbatim>\<open>HANGUP\<close> from anybody else hands no row to either
  table. The handler reads the pending call from \<open>incomingCallRef\<close>.
\<close>

theorem hangup_records_missed_call:
  assumes "currentUser s = Some me" and "sig_type sg = HANGUP" and "senderId sg \<noteq> me"
    and "recipientId sg = None \<or> recipientId sg = Some [] \<or> recipientId sg = Some me"
  shows "(incomingCallRef s = Some ic \<and> callerId ic = senderId sg
            \<longrightarrow> (\<exists>row. db_messages (handle_signal e sg s) = db_messages s @ [row]
                      \<and> m_type row = ''missed_call''
                      \<and> m_sender_id row = senderId sg \<and> m_recipient_id row = me)
              \<and> (\<exists>row. db_notifications (handle_signal e sg s) = db_notifications s @ [row]
                      \<and> n_type row = ''MISSED_CALL''
                      \<and> n_recipient_id row = me \<and> n_sender_id row = senderId sg)
              \<and> incomingCall (handle_signal e sg s) = None
              \<and> (incomingCall s = incomingCallRef s
                    \<longrightarrow> incomingCallRef (step e (Signal sg) s) = None))
       \<and> ((incomingCallRef s = None \<or> (incomingCallRef s = Some ic \<and> callerId ic \<noteq> senderId sg))
            \<longrightarrow> db_messages (handle_signal e sg s) = db_messages s
              \<and> db_notifications (handle_signal e sg s) = db_notifications s)"
  using assms
  by (auto simp: handle_signal_def on_hangup_def truthy_def Let_def handleRemoteHangup_frame
        insert_notification_def insert_message_def report_def missed_call_message_def
        missed_call_notification_def step_def rerender_def mirrored_def sync_refs_def
        split: option.splits)

theorem hangup_records_missed_call_witness:
  "(\<exists>row. db_messages (handle_signal all_ok (signal_to_u1 HANGUP ''u2'' empty_payload) u1_ringing)
            = [row]
        \<and> m_type row = ''missed_call'' \<and> m_sender_id row = ''u2'' \<and> m_recipient_id row = ''u1'')
   \<and> (\<exists>row. db_notifications
              (handle_signal all_ok (signal_to_u1 HANGUP ''u2'' empty_payload) u1_ringing) = [row]
        \<and> n_type row = ''MISSED_CALL'' \<and> n_recipient_id row = ''u1'' \<and> n_sender_id row = ''u2'')
   \<and> incomingCall (handle_signal all_ok (signal_to_u1 HANGUP ''u2'' empty_payload) u1_ringing)
       = None
   \<and> db_messages (handle_signal all_ok (signal_to_u1 HANGUP ''u3'' empty_payload) u1_ringing)
       = []"
  using hangup_records_missed_call [where s = u1_ringing and e = all_ok and me = "''u1''"
      and sg = "signal_to_u1 HANGUP ''u2'' empty_payload"
      and ic = "\<lparr>callerId = ''u2'', ic_timestamp = 0, offer = Some (Sdp OfferSdp ''o'')\<rparr>"]
    hangup_records_missed_call [where s = u1_ringing and e = all_ok and me = "''u1''"
      and sg = "signal_to_u1 HANGUP ''u3'' empty_payload"
      and ic = "\<lparr>callerId = ''u2'', ic_timestamp = 0, offer = Some (Sdp OfferSdp ''o'')\<rparr>"]
  by (simp add: u1_ringing_simps signal_to_u1_def)

subsection \<open>Incoming offers\<close>

text \<open>
  Claim C2. An \<^verbatim>\<open>OFFER\<close> that reaches the \<^verbatim>\<open>switch\<close> is handled in one of three ways,
  decided on the mirrored cells \<open>isInCallRef\<close> and \<open>activeCallDataRef\<close>.
  In a call, from a participant: no incoming call is recorded, no connection is registered
  and no media is created; when the sender's connection exists, the offer carries a
  description, the browser accepts it and creates an answer, and the channel is
  subscribed, the offer becomes the remote description of that connection and one
  \<^verbatim>\<open>ANSWER\<close> is sent to the sender.
  In a call, from somebody who is not a participant: the state does not change at all.
  Not in a call: the state changes in \<open>incomingCall\<close> only, which records the caller and
  the offer as received; so no media is acquired.
\<close>

theorem offer_renegotiates_is_ignored_or_rings:
  assumes "currentUser s = Some me" and "sig_type sg = OFFER" and "senderId sg \<noteq> me"
    and "recipientId sg = None \<or> recipientId sg = Some [] \<or> recipientId sg = Some me"
  shows "(isInCallRef s \<and> includes_id (activeCallDataRef s) (senderId sg)
            \<longrightarrow> incomingCall (handle_signal e sg s) = incomingCall s
              \<and> peerConnectionsRef (handle_signal e sg s) = peerConnectionsRef s
              \<and> tracks (handle_signal e sg s) = tracks s
              \<and> streams (handle_signal e sg s) = streams s)
       \<and> (isInCallRef s \<and> includes_id (activeCallDataRef s) (senderId sg)
            \<and> map_of (peerConnectionsRef s) (senderId sg) = Some pc \<and> conns s pc = Some c
            \<and> p_sdp (sig_payload sg) = Some d
            \<and> setRemoteDescription_ok e (senderId sg) \<and> createDescription_ok e (senderId sg)
            \<and> signalingChannelRef s \<and> isSignalingConnectedRef s
            \<longrightarrow> conns (handle_signal e sg s) pc
                  = Some (c\<lparr>pc_remote := Some d,
                            pc_local := Some (Sdp AnswerSdp (created_sdp e (senderId sg)))\<rparr>)
              \<and> sent (handle_signal e sg s)
                  = sent s @ [\<lparr>sig_type = ANSWER, senderId = me,
                               recipientId = Some (senderId sg),
                               sig_payload =
                                 sdp_payload (Sdp AnswerSdp (created_sdp e (senderId sg)))\<rparr>])
       \<and> (isInCallRef s \<and> \<not> includes_id (activeCallDataRef s) (senderId sg)
            \<longrightarrow> handle_signal e sg s = s)
       \<and> (\<not> isInCallRef s
            \<longrightarrow> handle_signal e sg s
                  = s\<lparr>incomingCall := Some \<lparr>callerId = senderId sg, ic_timestamp = now e,
                                             offer = p_sdp (sig_payload sg)\<rparr>\<rparr>)"
  using assms
  by (auto simp: handle_signal_def on_offer_def truthy_def upd_conn_def sendSignal_def Let_def
           split: option.splits)

theorem offer_renegotiates_is_ignored_or_rings_witness:
  "map sig_type (sent (handle_signal all_ok
       (signal_to_u1 OFFER ''u2'' (sdp_payload (Sdp OfferSdp ''o''))) u1_calling_u2))
     = [OFFER, ANSWER]
   \<and> incomingCall (handle_signal all_ok
       (signal_to_u1 OFFER ''u2'' (sdp_payload (Sdp OfferSdp ''o''))) u1_calling_u2)
     = incomingCall u1_calling_u2
   \<and> handle_signal all_ok (signal_to_u1 OFFER ''u3'' (sdp_payload (Sdp OfferSdp ''o'')))
       u1_calling_u2 = u1_calling_u2
   \<and> handle_signal all_ok (signal_to_u1 OFFER ''u2'' (sdp_payload (Sdp OfferSdp ''o''))) u1_idle
       = u1_idle\<lparr>incomingCall := Some \<lparr>callerId = ''u2'', ic_timestamp = 0,
                                         offer = Some (Sdp OfferSdp ''o'')\<rparr>\<rparr>"
  using offer_renegotiates_is_ignored_or_rings [where s = u1_calling_u2 and e = all_ok
      and me = "''u1''" and pc = 2 and d = "Sdp OfferSdp ''o''"
      and c = "\<lparr>pc_senders = [Some 0], pc_closed = False, pc_remote = None,
                pc_local = Some (Sdp OfferSdp ''v=0'')\<rparr>"
      and sg = "signal_to_u1 OFFER ''u2'' (sdp_payload (Sdp OfferSdp ''o''))"]
    offer_renegotiates_is_ignored_or_rings [where s = u1_calling_u2 and e = all_ok
      and me = "''u1''"
      and sg = "signal_to_u1 OFFER ''u3'' (sdp_payload (Sdp OfferSdp ''o''))"]
    offer_renegotiates_is_ignored_or_rings [where s = u1_idle and e = all_ok and me = "''u1''"
      and sg = "signal_to_u1 OFFER ''u2'' (sdp_payload (Sdp OfferSdp ''o''))"]
  by (simp add: u1_calling_u2_simps u1_idle_simps signal_to_u1_def includes_id_def
        sdp_payload_def empty_payload_def all_ok_def)

subsection \<open>The filter of the signal handler\<close>

text \<open>
  Claim C8, as the code has it. The handler tests the recipient by truthiness, so a
  recipient that is the empty string counts as absent, and a \<^verbatim>\<open>USER_ONLINE\<close> signal
  passes the recipient test whoever it is addressed to (its case does nothing).
  A signal whose sender is the local user, and a signal whose recipient is a non-empty id
  other than the local user's, leave the state unchanged. Put the other way round: the
  state changes only if the sender is not the local user and the recipient is absent, empty
  or the local user.
\<close>

theorem signal_filter_leaves_state:
  assumes "currentUser s = Some me"
  shows "(senderId sg = me \<or> (recipientId sg = Some r \<and> r \<noteq> [] \<and> r \<noteq> me)
            \<longrightarrow> handle_signal e sg s = s)
       \<and> (handle_signal e sg s \<noteq> s
            \<longrightarrow> senderId sg \<noteq> me
              \<and> (recipientId sg = None \<or> recipientId sg = Some [] \<or> recipientId sg = Some me))"
  using assms by (auto simp: handle_signal_def truthy_def split: option.splits)

theorem signal_filter_leaves_state_witness:
  "handle_signal all_ok (signal_to_u1 HANGUP ''u1'' empty_payload) u1_ringing = u1_ringing
   \<and> handle_signal all_ok
       \<lparr>sig_type = HANGUP, senderId = ''u2'', recipientId = Some ''u3'',
        sig_payload = empty_payload\<rparr>
       u1_ringing = u1_ringing"
  using signal_filter_leaves_state [where s = u1_ringing and me = "''u1''" and e = all_ok
      and sg = "signal_to_u1 HANGUP ''u1'' empty_payload" and r = "''u1''"]
    signal_filter_leaves_state [where s = u1_ringing and me = "''u1''" and e = all_ok
      and r = "''u3''"
      and sg = "\<lparr>sig_type = HANGUP, senderId = ''u2'', recipientId = Some ''u3'',
                 sig_payload = empty_payload\<rparr>"]
  by (simp add: u1_ringing_simps signal_to_u1_def)

text \<open>
  The claim as stated fails for a recipient that is present but empty: while \<open>u1\<close> is
  being called by \<open>u2\<close>, a \<^verbatim>\<open>HANGUP\<close> from \<open>u2\<close> whose recipient is the empty string, which
  is not \<open>u1\<close>, is processed and changes the state.
\<close>

theorem signal_filter_empty_recipient_counterexample:
  "currentUser u1_ringing = Some ''u1''
   \<and> Some [] \<noteq> Some ''u1''
   \<and> handle_signal all_ok
       \<lparr>sig_type = HANGUP, senderId = ''u2'', recipientId = Some [],
        sig_payload = empty_payload\<rparr>
       u1_ringing \<noteq> u1_ringing"
proof -
  have "db_messages (handle_signal all_ok
          \<lparr>sig_type = HANGUP, senderId = ''u2'', recipientId = Some [],
           sig_payload = empty_payload\<rparr> u1_ringing)
        \<noteq> db_messages u1_ringing"
    by (simp add: example_defs model_defs Let_def)
  moreover have "currentUser u1_ringing = Some ''u1''"
    by (simp add: u1_ringing_simps)
  ultimately show ?thesis by auto
qed

subsection \<open>Answers\<close>

text \<open>
  Claim C9. For an \<^verbatim>\<open>ANSWER\<close>: when the sender is already among the participants, the
  list of participants stays as it is; when no connection is registered for the sender,
  the whole state stays as it is; and a list of participants without duplicates is still
  without duplicates afterwards.
\<close>

theorem answer_keeps_participants_distinct:
  assumes "sig_type sg = ANSWER"
  shows "(activeCallData s = Some ids \<and> senderId sg \<in> set ids
            \<longrightarrow> activeCallData (handle_signal e sg s) = Some ids)
       \<and> (map_of (peerConnectionsRef s) (senderId sg) = None \<longrightarrow> handle_signal e sg s = s)
       \<and> (activeCallData s = Some ids \<and> distinct ids
            \<longrightarrow> (\<exists>ids'. activeCallData (handle_signal e sg s) = Some ids' \<and> distinct ids'))"
  using assms
  by (auto simp: handle_signal_def on_answer_def upd_conn_def split: option.splits)

theorem answer_keeps_participants_distinct_witness:
  "activeCallData (handle_signal all_ok
      (signal_to_u1 ANSWER ''u2'' (sdp_payload (Sdp AnswerSdp ''a''))) u1_calling_u2)
     = Some [''u2'']
   \<and> handle_signal all_ok (signal_to_u1 ANSWER ''u3'' (sdp_payload (Sdp AnswerSdp ''a'')))
       u1_calling_u2 = u1_calling_u2"
  using answer_keeps_participants_distinct [where s = u1_calling_u2 and e = all_ok
      and ids = "[''u2'']"
      and sg = "signal_to_u1 ANSWER ''u2'' (sdp_payload (Sdp AnswerSdp ''a''))"]
    answer_keeps_participants_distinct [where s = u1_calling_u2 and e = all_ok
      and ids = "[''u2'']"
      and sg = "signal_to_u1 ANSWER ''u3'' (sdp_payload (Sdp AnswerSdp ''a''))"]
  by (simp add: u1_calling_u2_simps signal_to_u1_def)

subsection \<open>Screen sharing needs a connection\<close>





subsection \<open>Calls begin muted\<close>

lemma acquire_muted_eq:
  "acquire_muted s =
     (Suc (next_obj s),
      s\<lparr>tracks := (tracks s)(next_obj s \<mapsto>
            \<lparr>t_kind = Audio, t_enabled = False, t_live = True, t_screen = False\<rparr>),
        streams := (streams s)(Suc (next_obj s) \<mapsto> [next_obj s]),
        next_obj := Suc (Suc (next_obj s))\<rparr>)"
  by (simp add: acquire_muted_def new_track_def new_stream_def captured_def getAudioTracks_def
        getTracks_def has_kind_def set_enabled_def Let_def)

lemma begins_muted_cong:
  "tracks s' = tracks s \<Longrightarrow> streams s' = streams s \<Longrightarrow> isMicOn s' = isMicOn s
   \<Longrightarrow> localStream s' = localStream s \<Longrightarrow> begins_muted s' = begins_muted s"
proof -
  assume a: "tracks s' = tracks s" "streams s' = streams s" "isMicOn s' = isMicOn s"
    "localStream s' = localStream s"
  have "has_kind s' = has_kind s" "is_enabled s' = is_enabled s" "getTracks s' = getTracks s"
    using a by (auto simp: fun_eq_iff has_kind_def is_enabled_def getTracks_def)
  then show ?thesis
    using a by (simp add: begins_muted_def getAudioTracks_def split: option.splits)
qed

lemma begins_muted_connect:
  "begins_muted (connect_peer e m st rid s) = begins_muted s"
  by (rule begins_muted_cong) (simp_all add: connect_peer_frame)

lemma begins_muted_fold_connect:
  "begins_muted (fold (\<lambda>rid. connect_peer e (m rid) st rid) rids s) = begins_muted s"
  by (rule begins_muted_cong) (simp_all add: fold_frame connect_peer_frame)

lemma begins_muted_acquired:
  "begins_muted
     (s\<lparr>tracks := (tracks s)(n \<mapsto>
            \<lparr>t_kind = Audio, t_enabled = False, t_live = True, t_screen = False\<rparr>),
        streams := (streams s)(Suc n \<mapsto> [n]), next_obj := k, isMicOn := False,
        isCameraOn := False, localStream := Some (Suc n), isInCall := True,
        activeCallData := d\<rparr>)"
  by (simp add: begins_muted_def getAudioTracks_def getTracks_def has_kind_def is_enabled_def)

lemma acceptIncomingCall_media:
  assumes "incomingCall s = Some ic" and "currentUser s = Some u" and "getUserMedia_ok e"
  shows "tracks (acceptIncomingCall e s) = (tracks s)(next_obj s \<mapsto>
            \<lparr>t_kind = Audio, t_enabled = False, t_live = True, t_screen = False\<rparr>)"
    and "streams (acceptIncomingCall e s) = (streams s)(Suc (next_obj s) \<mapsto> [next_obj s])"
    and "isMicOn (acceptIncomingCall e s) = False"
    and "localStream (acceptIncomingCall e s) = Some (Suc (next_obj s))"
  using assms
  by (simp_all add: acceptIncomingCall_def acquire_muted_eq Let_def createPeerConnection_def
        upd_conn_frame sendSignal_frame report_frame pc_addTrack_frame
        fold_frame [of tracks] fold_frame [of streams] fold_frame [of isMicOn]
        fold_frame [of localStream] split: option.splits sum.splits)

text \<open>
  Claim C4. When \<^verbatim>\<open>startGroupCall\<close> or \<^verbatim>\<open>startCall\<close> acquires media (a user is logged
  in, there is a recipient, no local stream exists yet and the capture is granted), and
  when \<^verbatim>\<open>acceptIncomingCall\<close> does (a user is logged in, a call is pending and the capture
  is granted), the state it returns has \<open>isMicOn\<close> false and a local stream whose audio
  tracks are all disabled. This holds whatever happens to the connections afterwards.
\<close>

theorem call_begins_muted:
  "(currentUser s \<noteq> None \<and> recipientIds \<noteq> [] \<and> localStream s = None \<and> getUserMedia_ok e
      \<longrightarrow> begins_muted (startGroupCall e recipientIds s))
   \<and> (currentUser s \<noteq> None \<and> localStream s = None \<and> getUserMedia_ok e
      \<longrightarrow> begins_muted (startCall e r s))
   \<and> (currentUser s \<noteq> None \<and> incomingCall s = Some ic \<and> getUserMedia_ok e
      \<longrightarrow> begins_muted (acceptIncomingCall e s))"
proof (intro conjI impI)
  assume "currentUser s \<noteq> None \<and> recipientIds \<noteq> [] \<and> localStream s = None \<and> getUserMedia_ok e"
  then show "begins_muted (startGroupCall e recipientIds s)"
    by (auto simp: startGroupCall_def acquire_muted_eq Let_def begins_muted_fold_connect
          begins_muted_acquired)
next
  assume "currentUser s \<noteq> None \<and> localStream s = None \<and> getUserMedia_ok e"
  then show "begins_muted (startCall e r s)"
    by (auto simp: startCall_def startGroupCall_def acquire_muted_eq Let_def
          begins_muted_connect begins_muted_acquired)
next
  assume a: "currentUser s \<noteq> None \<and> incomingCall s = Some ic \<and> getUserMedia_ok e"
  then obtain u where "currentUser s = Some u" by auto
  with a show "begins_muted (acceptIncomingCall e s)"
    by (simp add: begins_muted_def getAudioTracks_def getTracks_def has_kind_def is_enabled_def
          acceptIncomingCall_media [of s ic u e])
qed

theorem call_begins_muted_witness:
  "begins_muted (startGroupCall all_ok [''u2'', ''u3''] u1_idle)
   \<and> begins_muted (startCall all_ok ''u2'' u1_idle)
   \<and> begins_muted (acceptIncomingCall all_ok u1_ringing)"
  using call_begins_muted [where s = u1_idle and e = all_ok and recipientIds = "[''u2'', ''u3'']"
      and r = "''u2''"]
    call_begins_muted [where s = u1_ringing and e = all_ok
      and ic = "\<lparr>callerId = ''u2'', ic_timestamp = 0, offer = Some (Sdp OfferSdp ''o'')\<rparr>"]
  by (simp add: u1_idle_simps u1_ringing_simps all_ok_def)

subsection \<open>Muting and unmuting\<close>





















subsection \<open>Capture failures\<close>

lemma break_screen_clears:
  "isScreenSharing (break_screen e c v a n f s) = False"
  by (simp add: break_screen_def Let_def isScreenSharing_frame
        isScreenSharing_renegotiate isScreenSharing_fix_audio fold_pcs_frame [of isScreenSharing]
        split: option.splits)

lemma stopScreenSharing_clears:
  assumes "or_else (localVideoStreamRef s) (localVideoStream c) = Some v"
    and "peerConnectionsRef s \<noteq> []"
  shows "isScreenSharing (stopScreenSharing e c s) = False"
  using assms
  by (simp add: stopScreenSharing_def Let_def break_screen_clears split: prod.splits)

text \<open>
  Claim C7, as the code has it. When the capture that an operation itself requests is
  refused (the microphone in \<^verbatim>\<open>toggleMic\<close>, \<^verbatim>\<open>startGroupCall\<close> and
  \<^verbatim>\<open>acceptIncomingCall\<close>, the camera in \<^verbatim>\<open>toggleCamera\<close>, the display in
  \<^verbatim>\<open>toggleScreenShare\<close>), the operation reports the error and returns the state it was
  given with nothing but the report added: no flag changes, no signal is sent, no connection
  is created. The camera capture inside \<^verbatim>\<open>stopScreenSharing\<close> is different: whether or not
  it succeeds, \<^verbatim>\<open>toggleScreenShare\<close> on a running share with a connection and a video
  stream ends the share.
\<close>

theorem capture_failure_aborts:
  "(localAudioStreamRef s = None \<and> localAudioStream s = None \<and> \<not> getUserMedia_ok e
      \<longrightarrow> toggleMic e s
            = s\<lparr>reports := reports s @ [ConsoleError ''Failed to acquire microphone:'',
                                          Alert ''Could not access microphone.'']\<rparr>)
   \<and> (\<not> isCameraOn s \<and> \<not> getUserMedia_ok e
      \<longrightarrow> toggleCamera e s = s\<lparr>reports := reports s @ [ConsoleError ''Failed to access camera'']\<rparr>)
   \<and> (peerConnectionsRef s \<noteq> [] \<and> \<not> isScreenSharing s \<and> \<not> getDisplayMedia_ok e
      \<longrightarrow> toggleScreenShare e s
            = s\<lparr>reports := reports s @ [ConsoleError ''Error starting screen share:'']\<rparr>)
   \<and> (currentUser s \<noteq> None \<and> recipientIds \<noteq> [] \<and> localStream s = None \<and> \<not> getUserMedia_ok e
      \<longrightarrow> startGroupCall e recipientIds s
            = s\<lparr>reports := reports s @ [ConsoleError ''Error getting user media'',
                     Alert ''Could not access microphone. Call cannot start.'']\<rparr>)
   \<and> (currentUser s \<noteq> None \<and> incomingCall s = Some ic \<and> \<not> getUserMedia_ok e
      \<longrightarrow> acceptIncomingCall e s
            = s\<lparr>reports := reports s @ [ConsoleError ''Could not access microphone'']\<rparr>)
   \<and> (peerConnectionsRef s \<noteq> [] \<and> isScreenSharing s
        \<and> or_else (localVideoStreamRef s) (localVideoStream s) \<noteq> None
      \<longrightarrow> \<not> isScreenSharing (toggleScreenShare e s))"
  by (auto simp: toggleMic_def toggleCamera_def toggleScreenShare_def startGroupCall_def
        acceptIncomingCall_def or_else_def report_def stopScreenSharing_clears)

theorem capture_failure_aborts_witness:
  "reports (toggleMic capture_denied u1_idle)
     = [ConsoleError ''Failed to acquire microphone:'', Alert ''Could not access microphone.'']
   \<and> sent (toggleCamera capture_denied u1_calling_u2) = sent u1_calling_u2
   \<and> isScreenSharing (toggleScreenShare capture_denied u1_calling_u2) = False
   \<and> isInCall (startGroupCall capture_denied [''u2''] u1_idle) = False
   \<and> incomingCall (acceptIncomingCall capture_denied u1_ringing) = incomingCall u1_ringing"
  using capture_failure_aborts [where s = u1_idle and e = capture_denied
      and recipientIds = "[''u2'']"]
    capture_failure_aborts [where s = u1_calling_u2 and e = capture_denied]
    capture_failure_aborts [where s = u1_ringing and e = capture_denied
      and ic = "\<lparr>callerId = ''u2'', ic_timestamp = 0, offer = Some (Sdp OfferSdp ''o'')\<rparr>"]
  by (simp add: u1_idle_simps u1_calling_u2_simps u1_ringing_simps capture_denied_def
        initial_state_def u1_idle_def)

text \<open>
  The claim as stated fails for \<^verbatim>\<open>toggleScreenShare\<close> on a running share that began
  with the camera on: when every capture is refused, the camera cannot be acquired again,
  and yet \<open>isScreenSharing\<close> goes from true to false and a \<^verbatim>\<open>SCREEN_STOPPED\<close> signal is
  sent.
\<close>

theorem screen_stop_despite_camera_failure_counterexample:
  "\<not> reacquire_ok capture_denied
   \<and> prevCameraWasOnRef u1_sharing_after_camera
   \<and> isScreenSharing u1_sharing_after_camera
   \<and> \<not> isScreenSharing (toggleScreenShare capture_denied u1_sharing_after_camera)
   \<and> map sig_type (sent (toggleScreenShare capture_denied u1_sharing_after_camera))
       = map sig_type (sent u1_sharing_after_camera) @ [SCREEN_STOPPED]"
  by (simp add: example_defs model_defs Let_def)

subsection \<open>Camera and screen share\<close>

lemma camera_flags_frame:
  "isScreenSharing (attach_track e k t m1 m2 rid pc s) = isScreenSharing s"
  "isCameraOn (attach_track e k t m1 m2 rid pc s) = isCameraOn s"
  "isCameraOn (composeLocalStream s) = isCameraOn s"
  "isCameraOn (renegotiate_peer e rid pc s) = isCameraOn s"
  by (simp_all add: attach_track_def sender_replaceTrack_def pc_addTrack_def upd_conn_def
        report_def composeLocalStream_def new_stream_def renegotiate_peer_def sendSignal_def
        Let_def split: option.splits)

lemma isCameraOn_renegotiate:
  "isCameraOn (renegotiate e c s) = isCameraOn s"
  by (simp add: renegotiate_def camera_flags_frame fold_pcs_frame [of isCameraOn]
        split: option.splits)

text \<open>
  While a connection is registered and the shared video stream is there, turning the
  camera on does end the screen share: \<^verbatim>\<open>stopScreenSharing\<close> passes its guard.
\<close>

lemma toggleCamera_stops_share:
  assumes "\<not> isCameraOn s" and "getUserMedia_ok e" and "isScreenSharing s"
    and "peerConnectionsRef s \<noteq> []"
    and "or_else (localVideoStreamRef s) (localVideoStream s) = Some v"
  shows "isCameraOn (toggleCamera e s) \<and> \<not> isScreenSharing (toggleCamera e s)"
proof -
  let ?s1 = "snd (new_track (captured Video False) s)"
  have "or_else (localVideoStreamRef ?s1) (localVideoStream s) = Some v"
    "peerConnectionsRef ?s1 \<noteq> []"
    using assms by (simp_all add: new_track_def)
  then have "isScreenSharing (stopScreenSharing e s ?s1) = False"
    by (rule stopScreenSharing_clears)
  then show ?thesis
    using assms(1,2,3)
    by (simp add: toggleCamera_def Let_def split_def new_stream_def camera_flags_frame
          isCameraOn_renegotiate isScreenSharing_renegotiate isScreenSharing_frame
          fold_frame [of isScreenSharing] fold_frame [of isCameraOn])
qed

text \<open>
  Claim C3 fails on the code. \<^verbatim>\<open>toggleCamera\<close> calls \<^verbatim>\<open>stopScreenSharing\<close> before it
  sets \<open>isCameraOn\<close>, but \<^verbatim>\<open>stopScreenSharing\<close> returns at once when the registry of
  connections is empty, leaving \<open>isScreenSharing\<close> set. The run \<open>u1_camera_and_screen\<close>
  reaches such a state: the connection registered by an \<^verbatim>\<open>acceptIncomingCall\<close> that
  failed carries a screen share, the caller's \<^verbatim>\<open>HANGUP\<close> removes it without a cleanup
  (there is no active call), and \<^verbatim>\<open>toggleCamera\<close> then sets \<open>isCameraOn\<close> while
  \<open>isScreenSharing\<close> is still true.
\<close>

theorem camera_and_screen_share_both_on:
  "isCameraOn u1_camera_and_screen \<and> isScreenSharing u1_camera_and_screen
   \<and> peerConnectionsRef u1_camera_and_screen = []"
  by (simp add: example_defs model_defs Let_def)

subsection \<open>Remote hangup\<close>

lemma cleanupCall_idle:
  "peerConnectionsRef (cleanupCall s) = []" "isInCall (cleanupCall s) = False"
  "activeCallData (cleanupCall s) = None" "localStream (cleanupCall s) = None"
  "remoteStreams (cleanupCall s) = []" "isScreenSharing (cleanupCall s) = False"
  "isMicOn (cleanupCall s) = False" "isCameraOn (cleanupCall s) = False"
  by (simp_all add: cleanupCall_def Let_def)

lemma pc_close_registry:
  "peerConnectionsRef (pc_close p s) = peerConnectionsRef s"
  "remoteStreams (pc_close p s) = remoteStreams s"
  "activeCallData (pc_close p s) = activeCallData s"
  by (simp_all add: pc_close_def upd_conn_def split: option.splits)

lemma delete_absent: "map_of al k = None \<Longrightarrow> AList.delete k al = al"
  by (simp add: map_of_eq_None_iff)

text \<open>
  What \<^verbatim>\<open>handleRemoteHangup\<close> does get right during a call: the sender's entries leave
  the registry and the remote streams, the sender leaves the participants, the entries of
  the others stay while a participant remains, and the session is idle once none remains.
\<close>

lemma remote_hangup_removes_participant:
  assumes "activeCallData s = Some ids"
  shows "map_of (peerConnectionsRef (handleRemoteHangup x s)) x = None
       \<and> map_of (remoteStreams (handleRemoteHangup x s)) x = None
       \<and> \<not> includes_id (activeCallData (handleRemoteHangup x s)) x
       \<and> (filter (\<lambda>i. i \<noteq> x) ids \<noteq> []
            \<longrightarrow> peerConnectionsRef (handleRemoteHangup x s) = AList.delete x (peerConnectionsRef s)
              \<and> remoteStreams (handleRemoteHangup x s) = AList.delete x (remoteStreams s)
              \<and> activeCallData (handleRemoteHangup x s) = Some (filter (\<lambda>i. i \<noteq> x) ids))
       \<and> (filter (\<lambda>i. i \<noteq> x) ids = []
            \<longrightarrow> peerConnectionsRef (handleRemoteHangup x s) = []
              \<and> activeCallData (handleRemoteHangup x s) = None
              \<and> \<not> isInCall (handleRemoteHangup x s)
              \<and> localStream (handleRemoteHangup x s) = None)"
  using assms
  by (auto simp: handleRemoteHangup_def Let_def cleanupCall_idle pc_close_registry includes_id_def
        AList.delete_conv' delete_absent split: option.splits)

text \<open>
  Claim C6 fails on the code where it says that the local streams are stopped. After
  \<open>u1\<close> has called \<open>u2\<close> the local stream is stream 1 with the live audio track 0.
  When \<open>u2\<close> hangs up, the connection is closed and deregistered, the participants are
  gone and the session is idle, but \<^verbatim>\<open>cleanupCall\<close> stops only the streams in
  \<open>localAudioStreamRef\<close> and \<open>localVideoStreamRef\<close>: the stream acquired for the call is
  dropped from \<open>localStream\<close> and its track stays live.
\<close>

theorem remote_hangup_leaves_call_track_live:
  "localStream u1_calling_u2 = Some 1 \<and> getTracks u1_calling_u2 1 = [0]
   \<and> peerConnectionsRef u1_calling_u2 = [(''u2'', 2)]
   \<and> map_option pc_closed (conns u1_after_remote_hangup 2) = Some True
   \<and> peerConnectionsRef u1_after_remote_hangup = []
   \<and> activeCallData u1_after_remote_hangup = None
   \<and> isInCall u1_after_remote_hangup = False
   \<and> localStream u1_after_remote_hangup = None
   \<and> is_live u1_after_remote_hangup 0"
  by (simp add: example_defs model_defs Let_def)

end
